theory Spec2Isabelle
  imports Main
begin

section \<open>SSHClient: a facade over an SSH connection and an SCP channel\<close>

text \<open>
  The module \<^verbatim>\<open>SSHClient.py\<close> holds one class, \<^verbatim>\<open>SSHClient\<close>, whose methods hand
  their arguments to two libraries: paramiko (the SSH connection) and scp (file copy over
  that connection). Neither library is part of the module, so the model takes their
  behaviour as a parameter (a \<open>collab\<close>) and records every call the class makes on them,
  in order, together with its outcome. What the class itself does (which calls, on which
  object, with which arguments, what it logs, what it catches) is translated from the
  source.
\<close>

subsection \<open>Values\<close>

text \<open>
  An exception: an instance of Python's \<^verbatim>\<open>Exception\<close>, the class that
  \<^verbatim>\<open>except Exception\<close> matches, with its class name and the text \<^verbatim>\<open>str()\<close> gives.
  Interpreter signals outside that class (\<^verbatim>\<open>KeyboardInterrupt\<close>, \<^verbatim>\<open>SystemExit\<close>) arrive
  asynchronously and are not failures of a library call; they are not modelled.
\<close>

datatype exn = Exn (exc_class: string) (exc_str: string)

text \<open>A reference to an object that one of the two libraries owns.\<close>

datatype obj = Obj nat

text \<open>The \<^verbatim>\<open>local_paths\<close> of \<^verbatim>\<open>put\<close>: "a single path, or a list of paths".\<close>

datatype paths = Single string | Several "string list"

text \<open>
  The library calls the class makes. \<open>'t\<close> is the type of the \<^verbatim>\<open>timeout\<close> that
  \<^verbatim>\<open>execute\<close> passes on untouched.
  \<^item> \<open>SSHClient_new\<close>: \<^verbatim>\<open>paramiko.SSHClient()\<close>
  \<^item> \<open>AutoAddPolicy_new\<close>: \<^verbatim>\<open>paramiko.AutoAddPolicy()\<close>
  \<^item> \<open>Load_system_host_keys ssh\<close>: \<^verbatim>\<open>ssh.load_system_host_keys()\<close>
  \<^item> \<open>Set_missing_host_key_policy ssh policy\<close>
  \<^item> \<open>Connect ssh host port user password\<close>
  \<^item> \<open>Get_transport ssh\<close>
  \<^item> \<open>SCPClient_new transport\<close>: \<^verbatim>\<open>SCPClient(transport)\<close>
  \<^item> \<open>Scp_get scp remote_path local_path recursive\<close>
  \<^item> \<open>Scp_put scp local_paths remote_path recursive\<close>
  \<^item> \<open>Exec_command ssh command timeout\<close>
  \<^item> \<open>Ssh_close ssh\<close>, \<open>Scp_close scp\<close>
\<close>

datatype 't call =
    SSHClient_new
  | AutoAddPolicy_new
  | Load_system_host_keys obj
  | Set_missing_host_key_policy obj obj
  | Connect obj string int string string
  | Get_transport obj
  | SCPClient_new obj
  | Scp_get obj string string bool
  | Scp_put obj paths string bool
  | Exec_command obj string 't
  | Ssh_close obj
  | Scp_close obj

text \<open>An event: a call and its outcome (\<open>None\<close>: it returned, \<open>Some e\<close>: it raised \<open>e\<close>).\<close>

type_synonym 't event = "'t call \<times> exn option"

text \<open>
  The world outside the instance: the calls made on the libraries so far, oldest first,
  and the records handed to \<^verbatim>\<open>logger.info\<close>, oldest first.
\<close>

record 't world =
  trace :: "'t event list"
  records :: "string list"

text \<open>
  The libraries, as a parameter: whether a call raises (given the calls before it), the
  object a constructor or \<^verbatim>\<open>get_transport\<close> returns, and the 3-tuple
  \<^verbatim>\<open>(stdin, stdout, stderr)\<close> that paramiko's \<^verbatim>\<open>exec_command\<close> returns.
\<close>

record 't collab =
  raises :: "'t event list \<Rightarrow> 't call \<Rightarrow> exn option"
  new_obj :: "'t event list \<Rightarrow> 't call \<Rightarrow> obj"
  streams :: "'t event list \<Rightarrow> 't call \<Rightarrow> obj \<times> obj \<times> obj"

text \<open>
  An instance of the class. Every attribute is a class attribute initialised to
  \<^verbatim>\<open>None\<close>; \<^verbatim>\<open>__init__\<close> assigns them one by one.
\<close>

record session =
  host :: "string option"
  port :: "int option"
  user :: "string option"
  password :: "string option"
  ssh_client :: "obj option"
  scp_client :: "obj option"

definition new_instance :: session where
  "new_instance =
     \<lparr>host = None, port = None, user = None, password = None,
      ssh_client = None, scp_client = None\<rparr>"

subsection \<open>Formatting\<close>

definition digit :: "nat \<Rightarrow> char" where
  "digit d = ''0123456789'' ! d"

fun str_nat :: "nat \<Rightarrow> string" where
  "str_nat n = (if n < 10 then [digit n] else str_nat (n div 10) @ [digit (n mod 10)])"

declare str_nat.simps [simp del]

text \<open>\<^verbatim>\<open>str(port)\<close> for an integer port.\<close>

definition str_int :: "int \<Rightarrow> string" where
  "str_int i = (if i < 0 then CHR ''-'' # str_nat (nat (- i)) else str_nat (nat i))"


text \<open>\<^verbatim>\<open>self.__class__.__name__\<close> of an instance of the class.\<close>

definition class_name :: string where
  "class_name = ''SSHClient''"

subsection \<open>Calling the libraries\<close>

text \<open>A call that returns nothing of interest: its outcome, and the trace one event longer.\<close>

definition invoke :: "'t collab \<Rightarrow> 't call \<Rightarrow> 't world \<Rightarrow> exn option \<times> 't world" where
  "invoke c k w =
     (raises c (trace w) k, w\<lparr>trace := trace w @ [(k, raises c (trace w) k)]\<rparr>)"

text \<open>A call that returns an object.\<close>

definition invoke_new :: "'t collab \<Rightarrow> 't call \<Rightarrow> 't world \<Rightarrow> (exn + obj) \<times> 't world" where
  "invoke_new c k w =
     (case invoke c k w of
        (Some e, w') \<Rightarrow> (Inl e, w')
      | (None, w') \<Rightarrow> (Inr (new_obj c (trace w) k), w'))"

text \<open>
  A method call on an attribute that may be \<^verbatim>\<open>None\<close>: Python raises
  \<^verbatim>\<open>AttributeError\<close> before any library is reached.
\<close>

definition attribute_error :: "string \<Rightarrow> exn" where
  "attribute_error name =
     Exn ''AttributeError''
       (CHR 0x27 # ''NoneType'' @ CHR 0x27 # '' object has no attribute '' @
        CHR 0x27 # name @ [CHR 0x27])"

definition getattr_call ::
  "'t collab \<Rightarrow> obj option \<Rightarrow> string \<Rightarrow> (obj \<Rightarrow> 't call) \<Rightarrow> 't world \<Rightarrow> exn option \<times> 't world" where
  "getattr_call c recv name k w =
     (case recv of
        None \<Rightarrow> (Some (attribute_error name), w)
      | Some r \<Rightarrow> invoke c (k r) w)"

subsection \<open>The class\<close>

text \<open>
  \<^verbatim>\<open>__log(data)\<close>: two calls of \<^verbatim>\<open>logger.info\<close>, the first naming the class, the
  second carrying the data.
\<close>

definition logger_info :: "string \<Rightarrow> 't world \<Rightarrow> 't world" where
  "logger_info msg w = w\<lparr>records := records w @ [msg]\<rparr>"

definition py_log :: "string \<Rightarrow> 't world \<Rightarrow> 't world" where
  "py_log data w = logger_info data (logger_info (''Log source: '' @ class_name) w)"

text \<open>
  \<^verbatim>\<open>__init__(host, port, user, password)\<close> on the instance \<open>self\<close>. The body has no
  \<^verbatim>\<open>try\<close>: the first call that raises ends it, and the exception leaves with the
  attributes assigned so far. The result is the exception (if any), the instance as the
  body left it, and the world.
\<close>

definition py_init ::
  "'t collab \<Rightarrow> session \<Rightarrow> string \<Rightarrow> int \<Rightarrow> string \<Rightarrow> string \<Rightarrow> 't world \<Rightarrow>
     exn option \<times> session \<times> 't world" where
  "py_init c self h p u pw w0 =
     (let s1 = self\<lparr>host := Some h, port := Some p, user := Some u, password := Some pw\<rparr> in
      case invoke_new c SSHClient_new w0 of
        (Inl e, w1) \<Rightarrow> (Some e, s1, w1)
      | (Inr ssh, w1) \<Rightarrow>
     (let s2 = s1\<lparr>ssh_client := Some ssh\<rparr> in
      case invoke c (Load_system_host_keys ssh) w1 of
        (Some e, w2) \<Rightarrow> (Some e, s2, w2)
      | (None, w2) \<Rightarrow>
     (case invoke_new c AutoAddPolicy_new w2 of
        (Inl e, w3) \<Rightarrow> (Some e, s2, w3)
      | (Inr policy, w3) \<Rightarrow>
     (case invoke c (Set_missing_host_key_policy ssh policy) w3 of
        (Some e, w4) \<Rightarrow> (Some e, s2, w4)
      | (None, w4) \<Rightarrow>
     (case invoke c (Connect ssh h p u pw) w4 of
        (Some e, w5) \<Rightarrow> (Some e, s2, w5)
      | (None, w5) \<Rightarrow>
     (case invoke_new c (Get_transport ssh) w5 of
        (Inl e, w6) \<Rightarrow> (Some e, s2, w6)
      | (Inr transport, w6) \<Rightarrow>
     (case invoke_new c (SCPClient_new transport) w6 of
        (Inl e, w7) \<Rightarrow> (Some e, s2, w7)
      | (Inr scp, w7) \<Rightarrow>
     (let s3 = s2\<lparr>scp_client := Some scp\<rparr> in
      (None, s3,
       py_log (''Connection with '' @ h @ '' host on '' @ str_int p @
               '' port has been successfully established...'') w7)))))))))"

text \<open>
  The expression \<^verbatim>\<open>SSHClient(host, port, user, password)\<close> as its caller sees it: a new
  instance run through \<^verbatim>\<open>__init__\<close>, handed over only when \<^verbatim>\<open>__init__\<close> returns.
\<close>

definition construct ::
  "'t collab \<Rightarrow> string \<Rightarrow> int \<Rightarrow> string \<Rightarrow> string \<Rightarrow> 't world \<Rightarrow> (exn + session) \<times> 't world" where
  "construct c h p u pw w =
     (case py_init c new_instance h p u pw w of
        (Some e, s, w') \<Rightarrow> (Inl e, w')
      | (None, s, w') \<Rightarrow> (Inr s, w'))"



text \<open>\<^verbatim>\<open>get(remote_path, local_path, recursive)\<close>; the method returns nothing.\<close>

definition get ::
  "'t collab \<Rightarrow> session \<Rightarrow> string \<Rightarrow> string \<Rightarrow> bool \<Rightarrow> 't world \<Rightarrow>
     (exn + unit) \<times> session \<times> 't world" where
  "get c self remote_path local_path recursive w =
     (case getattr_call c (scp_client self) ''get''
             (\<lambda>scp. Scp_get scp remote_path local_path recursive) w of
        (Some e, w') \<Rightarrow> (Inl e, self, w')
      | (None, w') \<Rightarrow> (Inr (), self, w'))"

text \<open>\<^verbatim>\<open>put(local_paths, remote_path, recursive)\<close>; the method returns nothing.\<close>

definition put ::
  "'t collab \<Rightarrow> session \<Rightarrow> paths \<Rightarrow> string \<Rightarrow> bool \<Rightarrow> 't world \<Rightarrow>
     (exn + unit) \<times> session \<times> 't world" where
  "put c self local_paths remote_path recursive w =
     (case getattr_call c (scp_client self) ''put''
             (\<lambda>scp. Scp_put scp local_paths remote_path recursive) w of
        (Some e, w') \<Rightarrow> (Inl e, self, w')
      | (None, w') \<Rightarrow> (Inr (), self, w'))"

text \<open>
  \<^verbatim>\<open>execute(command, timeout)\<close>: returns what \<^verbatim>\<open>exec_command\<close> returns, the 3-tuple
  of the command's stdin, stdout and stderr.
\<close>

definition execute ::
  "'t collab \<Rightarrow> session \<Rightarrow> string \<Rightarrow> 't \<Rightarrow> 't world \<Rightarrow>
     (exn + obj \<times> obj \<times> obj) \<times> session \<times> 't world" where
  "execute c self command timeout w =
     (case ssh_client self of
        None \<Rightarrow> (Inl (attribute_error ''exec_command''), self, w)
      | Some ssh \<Rightarrow>
        (case invoke c (Exec_command ssh command timeout) w of
           (Some e, w') \<Rightarrow> (Inl e, self, w')
         | (None, w') \<Rightarrow>
           (Inr (streams c (trace w) (Exec_command ssh command timeout)), self, w')))"

subsection \<open>Reading a trace\<close>

text \<open>The events a run added: those of \<open>w'\<close> after the ones \<open>w\<close> already had.\<close>

definition since :: "'t world \<Rightarrow> 't world \<Rightarrow> 't event list" where
  "since w w' = drop (length (trace w)) (trace w')"

fun is_close :: "'t call \<Rightarrow> bool" where
  "is_close (Ssh_close ssh) = True"
| "is_close (Scp_close scp) = True"
| "is_close k = False"

subsection \<open>Files, and a copy channel that stores what it is given\<close>

text \<open>
  The round-trip law of \<^verbatim>\<open>put\<close> and \<^verbatim>\<open>get\<close> is a law of the scp library, which the
  module only calls. It is stated under an assumption on that library, \<open>faithful\<close>: the
  effect of a successful upload of an existing local file (or, with
  \<^verbatim>\<open>recursive\<close>, directory tree) is that the remote path holds it, and the effect of
  a successful download of an existing remote file (or tree) is that the local path
  holds it. A file system maps paths to files and directory trees; the pair is
  (local, remote).
\<close>

datatype node = File string | Dir "(string \<times> node) list"

fun is_dir :: "node \<Rightarrow> bool" where
  "is_dir (Dir entries) = True"
| "is_dir (File content) = False"

type_synonym fs = "string \<Rightarrow> node option"

type_synonym 't channel = "'t call \<Rightarrow> fs \<times> fs \<Rightarrow> fs \<times> fs"

definition faithful :: "'t channel \<Rightarrow> bool" where
  "faithful eff \<longleftrightarrow>
     (\<forall>scp l r recursive loc rem n.
        loc l = Some n \<and> (recursive \<or> \<not> is_dir n) \<longrightarrow>
        snd (eff (Scp_put scp (Single l) r recursive) (loc, rem)) r = Some n) \<and>
     (\<forall>scp r l recursive loc rem n.
        rem r = Some n \<and> (recursive \<or> \<not> is_dir n) \<longrightarrow>
        fst (eff (Scp_get scp r l recursive) (loc, rem)) l = Some n)"

text \<open>The effect of a list of events on the file systems: calls that raised have none.\<close>

definition replay :: "'t channel \<Rightarrow> 't event list \<Rightarrow> fs \<times> fs \<Rightarrow> fs \<times> fs" where
  "replay eff evs st =
     fold (\<lambda>ev st. case snd ev of None \<Rightarrow> eff (fst ev) st | Some e \<Rightarrow> st) evs st"

text \<open>One channel that meets \<open>faithful\<close>: it copies the node at the source path.\<close>

fun store :: "'t channel" where
  "store (Scp_put scp (Single l) r recursive) (loc, rem) =
     (case loc l of
        Some n \<Rightarrow> if recursive \<or> \<not> is_dir n then (loc, rem(r \<mapsto> n)) else (loc, rem)
      | None \<Rightarrow> (loc, rem))"
| "store (Scp_get scp r l recursive) (loc, rem) =
     (case rem r of
        Some n \<Rightarrow> if recursive \<or> \<not> is_dir n then (loc(l \<mapsto> n), rem) else (loc, rem)
      | None \<Rightarrow> (loc, rem))"
| "store k st = st"

subsection \<open>Libraries and sessions to run the model on\<close>

text \<open>
  Libraries in which nothing fails, in which \<^verbatim>\<open>SCPClient(transport)\<close> fails, in
  which closing the SSH client fails, in which closing the SCP client fails, and in
  which every call fails. Each hands out the length of the trace as the
  identity of a new object. The timeout is a number of seconds.
\<close>

definition fresh :: "nat event list \<Rightarrow> nat call \<Rightarrow> obj" where
  "fresh tr k = Obj (length tr)"

definition handles :: "nat event list \<Rightarrow> nat call \<Rightarrow> obj \<times> obj \<times> obj" where
  "handles tr k = (Obj (length tr), Obj (length tr + 1), Obj (length tr + 2))"

definition lib_ok :: "nat collab" where
  "lib_ok = \<lparr>raises = (\<lambda>tr k. None), new_obj = fresh, streams = handles\<rparr>"

definition bind_error :: exn where
  "bind_error = Exn ''SSHException'' ''Unable to open channel.''"

definition lib_bind_fails :: "nat collab" where
  "lib_bind_fails =
     \<lparr>raises = (\<lambda>tr k. case k of SCPClient_new transport \<Rightarrow> Some bind_error | _ \<Rightarrow> None),
      new_obj = fresh, streams = handles\<rparr>"

definition close_error :: exn where
  "close_error = Exn ''OSError'' ''Bad file descriptor''"

definition lib_close_fails :: "nat collab" where
  "lib_close_fails =
     \<lparr>raises = (\<lambda>tr k. case k of Ssh_close ssh \<Rightarrow> Some close_error | _ \<Rightarrow> None),
      new_obj = fresh, streams = handles\<rparr>"

definition lib_scp_close_fails :: "nat collab" where
  "lib_scp_close_fails =
     \<lparr>raises = (\<lambda>tr k. case k of Scp_close scp \<Rightarrow> Some close_error | _ \<Rightarrow> None),
      new_obj = fresh, streams = handles\<rparr>"

definition exec_error :: exn where
  "exec_error = Exn ''SSHException'' ''SSH session not active''"

definition lib_all_fail :: "nat collab" where
  "lib_all_fail = \<lparr>raises = (\<lambda>tr k. Some exec_error), new_obj = fresh, streams = handles\<rparr>"

definition world0 :: "nat world" where
  "world0 = \<lparr>trace = [], records = []\<rparr>"

text \<open>
  The session and the world that \<^verbatim>\<open>SSHClient('example.org', 22, 'root', 'root')\<close>
  gives with \<open>lib_ok\<close> from \<open>world0\<close>, and the instance that \<^verbatim>\<open>__init__\<close> leaves behind
  with \<open>lib_bind_fails\<close>.
\<close>

definition session_ok :: session where
  "session_ok =
     \<lparr>host = Some ''example.org'', port = Some 22, user = Some ''root'',
      password = Some ''root'', ssh_client = Some (Obj 0), scp_client = Some (Obj 6)\<rparr>"

definition session_half :: session where
  "session_half = session_ok\<lparr>scp_client := None\<rparr>"

definition init_calls :: "nat call list" where
  "init_calls =
     [SSHClient_new, Load_system_host_keys (Obj 0), AutoAddPolicy_new,
      Set_missing_host_key_policy (Obj 0) (Obj 2),
      Connect (Obj 0) ''example.org'' 22 ''root'' ''root'',
      Get_transport (Obj 0), SCPClient_new (Obj 5)]"

definition world_ok :: "nat world" where
  "world_ok =
     \<lparr>trace = map (\<lambda>k. (k, None)) init_calls,
      records =
        [''Log source: SSHClient'',
         ''Connection with example.org host on 22 port has been successfully established...'']\<rparr>"

definition world_half :: "nat world" where
  "world_half =
     \<lparr>trace = map (\<lambda>k. (k, None)) (butlast init_calls) @
              [(SCPClient_new (Obj 5), Some bind_error)],
      records = []\<rparr>"

definition local0 :: fs where
  "local0 = [''notes.txt'' \<mapsto> File ''hello'']"

definition remote0 :: fs where
  "remote0 = Map.empty"

section \<open>Properties\<close>

subsection \<open>Auxiliary facts\<close>

lemmas call_defs = invoke_def invoke_new_def getattr_call_def

lemmas log_defs = py_log_def logger_info_def class_name_def

lemmas lib_defs = lib_ok_def lib_bind_fails_def lib_close_fails_def lib_scp_close_fails_def
  lib_all_fail_def fresh_def handles_def bind_error_def close_error_def exec_error_def

lemmas run_defs = world0_def world_ok_def world_half_def session_ok_def session_half_def
  init_calls_def new_instance_def

lemma str_int_22: "str_int 22 = ''22''"
  by (simp add: str_int_def str_nat.simps digit_def)

lemma init_ok_run:
  "py_init lib_ok new_instance ''example.org'' 22 ''root'' ''root'' world0 =
     (None, session_ok, world_ok)"
  by (simp add: py_init_def call_defs log_defs lib_defs run_defs str_int_22)

lemma init_bind_fails_run:
  "py_init lib_bind_fails new_instance ''example.org'' 22 ''root'' ''root'' world0 =
     (Some bind_error, session_half, world_half)"
  by (simp add: py_init_def call_defs log_defs lib_defs run_defs)

lemma connect_in_world_half:
  "(Connect (Obj 0) ''example.org'' 22 ''root'' ''root'', None) \<in> set (since world0 world_half)"
  by (simp add: since_def run_defs)

text \<open>A session that the constructor returned has both clients bound.\<close>

lemma construct_binds_clients:
  assumes "construct c h p u pw w = (Inr s, w')"
  shows "\<exists>ssh scp. s = \<lparr>host = Some h, port = Some p, user = Some u, password = Some pw,
           ssh_client = Some ssh, scp_client = Some scp\<rparr>"
  using assms
  by (auto simp add: construct_def py_init_def call_defs new_instance_def Let_def
      split: option.splits prod.splits sum.splits)

text \<open>
  The instance that \<^verbatim>\<open>__init__\<close> leaves behind when it raised after \<^verbatim>\<open>connect\<close> had
  returned.
\<close>

lemma init_half:
  assumes "py_init c new_instance h p u pw w = (Some e, s', w')"
    and "(Connect ssh h' p' u' pw', None) \<in> set (since w w')"
  shows "s' = \<lparr>host = Some h, port = Some p, user = Some u, password = Some pw,
               ssh_client = Some ssh, scp_client = None\<rparr> \<and>
         records w' = records w \<and>
         filter is_close (map fst (since w w')) = [] \<and>
         (last (since w w') = (Get_transport ssh, Some e) \<or>
          (\<exists>transport. last (since w w') = (SCPClient_new transport, Some e)))"
  using assms
  apply (simp add: py_init_def call_defs new_instance_def Let_def split: option.split_asm)
  apply (auto simp add: since_def)
  done

lemma put_ok:
  assumes "put c s ps r recursive w = (Inr (), s1, w1)"
  shows "\<exists>scp. scp_client s = Some scp \<and> s1 = s \<and>
           w1 = w\<lparr>trace := trace w @ [(Scp_put scp ps r recursive, None)]\<rparr>"
proof (cases "scp_client s")
  case None
  with assms show ?thesis by (simp add: put_def getattr_call_def)
next
  case (Some scp)
  with assms show ?thesis
    by (cases "raises c (trace w) (Scp_put scp ps r recursive)")
       (auto simp add: put_def getattr_call_def invoke_def)
qed

lemma get_ok:
  assumes "get c s r l recursive w = (Inr (), s1, w1)"
  shows "\<exists>scp. scp_client s = Some scp \<and> s1 = s \<and>
           w1 = w\<lparr>trace := trace w @ [(Scp_get scp r l recursive, None)]\<rparr>"
proof (cases "scp_client s")
  case None
  with assms show ?thesis by (simp add: get_def getattr_call_def)
next
  case (Some scp)
  with assms show ?thesis
    by (cases "raises c (trace w) (Scp_get scp r l recursive)")
       (auto simp add: get_def getattr_call_def invoke_def)
qed

lemma faithful_put:
  assumes "faithful eff" and "loc l = Some n" and "recursive \<or> \<not> is_dir n"
  shows "snd (eff (Scp_put scp (Single l) r recursive) (loc, rem)) r = Some n"
  using assms(2,3)
    assms(1) [unfolded faithful_def, THEN conjunct1, rule_format,
      where loc = loc and l = l and n = n and recursive = recursive and scp = scp
        and r = r and rem = rem]
  by simp

lemma faithful_get:
  assumes "faithful eff" and "rem r = Some n" and "recursive \<or> \<not> is_dir n"
  shows "fst (eff (Scp_get scp r l recursive) (loc, rem)) l = Some n"
  using assms(2,3)
    assms(1) [unfolded faithful_def, THEN conjunct2, rule_format,
      where loc = loc and l = l and n = n and recursive = recursive and scp = scp
        and r = r and rem = rem]
  by simp

lemma faithful_store: "faithful (store :: nat channel)"
  unfolding faithful_def by simp

lemma replay_two: "replay eff [(k1, None), (k2, None)] st = eff k2 (eff k1 st)"
  by (simp add: replay_def)

subsection \<open>Construction\<close>

text \<open>
  Claim C1, as the code has it. The claim says that the constructor closes the transport
  when the copy channel fails to bind. \<^verbatim>\<open>__init__\<close> has no \<^verbatim>\<open>try\<close> and calls
  \<^verbatim>\<open>close\<close> nowhere: when \<^verbatim>\<open>connect\<close> has returned and \<^verbatim>\<open>get_transport\<close> or
  \<^verbatim>\<open>SCPClient\<close> then raises, the exception leaves unchanged, the caller receives no
  session, no close call has been made and nothing has been logged; the instance left
  behind holds the connected client in \<^verbatim>\<open>ssh_client\<close> and \<^verbatim>\<open>None\<close> in
  \<^verbatim>\<open>scp_client\<close>.
\<close>

theorem init_bind_failure_leaves_transport_open:
  assumes "py_init c new_instance h p u pw w = (Some e, s', w')"
    and "(Connect ssh h p u pw, None) \<in> set (since w w')"
  shows "construct c h p u pw w = (Inl e, w') \<and>
         ssh_client s' = Some ssh \<and> scp_client s' = None \<and>
         filter is_close (map fst (since w w')) = [] \<and> records w' = records w \<and>
         (last (since w w') = (Get_transport ssh, Some e) \<or>
          (\<exists>transport. last (since w w') = (SCPClient_new transport, Some e)))"
  using init_half [OF assms] assms(1) by (simp add: construct_def)

theorem init_bind_failure_leaves_transport_open_witness:
  "py_init lib_bind_fails new_instance ''example.org'' 22 ''root'' ''root'' world0 =
     (Some bind_error, session_half, world_half) \<and>
   (Connect (Obj 0) ''example.org'' 22 ''root'' ''root'', None) \<in> set (since world0 world_half) \<and>
   construct lib_bind_fails ''example.org'' 22 ''root'' ''root'' world0 =
     (Inl bind_error, world_half) \<and>
   ssh_client session_half = Some (Obj 0) \<and> scp_client session_half = None \<and>
   filter is_close (map fst (since world0 world_half)) = [] \<and>
   records world_half = records world0"
  using init_bind_failure_leaves_transport_open [OF init_bind_fails_run connect_in_world_half]
    init_bind_fails_run connect_in_world_half
  by simp

theorem init_bind_failure_closes_transport_counterexample:
  "fst (py_init lib_bind_fails new_instance ''example.org'' 22 ''root'' ''root'' world0) =
     Some bind_error \<and>
   trace (snd (snd (py_init lib_bind_fails new_instance ''example.org'' 22 ''root'' ''root''
      world0))) =
     [(SSHClient_new, None), (Load_system_host_keys (Obj 0), None), (AutoAddPolicy_new, None),
      (Set_missing_host_key_policy (Obj 0) (Obj 2), None),
      (Connect (Obj 0) ''example.org'' 22 ''root'' ''root'', None),
      (Get_transport (Obj 0), None), (SCPClient_new (Obj 5), Some bind_error)] \<and>
   Ssh_close (Obj 0) \<notin> fst ` set (trace (snd (snd (py_init lib_bind_fails new_instance
      ''example.org'' 22 ''root'' ''root'' world0))))"
  by (simp add: init_bind_fails_run, simp add: run_defs)

text \<open>
  Claim C3, as the code has it. The claim says that a successful construction emits
  exactly one log record. \<^verbatim>\<open>__log\<close> calls \<^verbatim>\<open>logger.info\<close> twice, so a successful
  construction emits exactly two records: the first names the class, the second carries
  the host and \<^verbatim>\<open>str(port)\<close>.
\<close>

theorem construct_logs_two_records:
  assumes "construct c h p u pw w = (Inr s, w')"
  shows "records w' = records w @ [''Log source: SSHClient'',
           ''Connection with '' @ h @ '' host on '' @ str_int p @
           '' port has been successfully established...'']"
  using assms
  by (auto simp add: construct_def py_init_def call_defs log_defs Let_def
      split: option.splits prod.splits sum.splits)

theorem construct_logs_two_records_witness:
  "construct lib_ok ''example.org'' 22 ''root'' ''root'' world0 = (Inr session_ok, world_ok) \<and>
   records world_ok = records world0 @ [''Log source: SSHClient'',
     ''Connection with '' @ ''example.org'' @ '' host on '' @ str_int 22 @
     '' port has been successfully established...'']"
proof -
  have run: "construct lib_ok ''example.org'' 22 ''root'' ''root'' world0 =
      (Inr session_ok, world_ok)"
    by (simp add: construct_def init_ok_run)
  from construct_logs_two_records [OF run] run show ?thesis by simp
qed

theorem construct_logs_one_record_counterexample:
  "fst (construct lib_ok ''example.org'' 22 ''root'' ''root'' world0) = Inr session_ok \<and>
   records world0 = [] \<and>
   records (snd (construct lib_ok ''example.org'' 22 ''root'' ''root'' world0)) =
     [''Log source: SSHClient'',
      ''Connection with example.org host on 22 port has been successfully established...''] \<and>
   length (records (snd (construct lib_ok ''example.org'' 22 ''root'' ''root'' world0))) = 2"
  by (simp add: construct_def init_ok_run, simp add: world_ok_def world0_def)

subsection \<open>The three operations\<close>

text \<open>
  Claim C4. On a session whose two clients are bound (as they are in every session the
  constructor returned, \<open>construct_binds_clients\<close>), each of \<^verbatim>\<open>get\<close>, \<^verbatim>\<open>put\<close> and
  \<^verbatim>\<open>execute\<close> makes exactly one library call, with the caller's arguments: the trace
  grows by that one event. When the call raises, the operation ends with that very
  exception; when it returns, so does the operation. Nothing is caught or retried.
\<close>

theorem operations_delegate_once:
  assumes "scp_client s = Some scp" and "ssh_client s = Some ssh"
  shows "get c s r l recursive w =
           ((case raises c (trace w) (Scp_get scp r l recursive) of
               Some e \<Rightarrow> Inl e | None \<Rightarrow> Inr ()), s,
            w\<lparr>trace := trace w @
               [(Scp_get scp r l recursive, raises c (trace w) (Scp_get scp r l recursive))]\<rparr>) \<and>
         put c s ps r' recursive' w =
           ((case raises c (trace w) (Scp_put scp ps r' recursive') of
               Some e \<Rightarrow> Inl e | None \<Rightarrow> Inr ()), s,
            w\<lparr>trace := trace w @
               [(Scp_put scp ps r' recursive',
                 raises c (trace w) (Scp_put scp ps r' recursive'))]\<rparr>) \<and>
         execute c s cmd t w =
           ((case raises c (trace w) (Exec_command ssh cmd t) of
               Some e \<Rightarrow> Inl e
             | None \<Rightarrow> Inr (streams c (trace w) (Exec_command ssh cmd t))), s,
            w\<lparr>trace := trace w @
               [(Exec_command ssh cmd t, raises c (trace w) (Exec_command ssh cmd t))]\<rparr>)"
  using assms by (simp add: get_def put_def execute_def call_defs split: option.splits)

theorem operations_delegate_once_witness:
  "scp_client session_ok = Some (Obj 6) \<and> ssh_client session_ok = Some (Obj 0) \<and>
   get lib_all_fail session_ok ''/etc/motd'' ''.'' False world_ok =
     (Inl exec_error, session_ok,
      world_ok\<lparr>trace := trace world_ok @
        [(Scp_get (Obj 6) ''/etc/motd'' ''.'' False, Some exec_error)]\<rparr>) \<and>
   put lib_all_fail session_ok (Several [''a.txt'', ''b.txt'']) ''/tmp'' False world_ok =
     (Inl exec_error, session_ok,
      world_ok\<lparr>trace := trace world_ok @
        [(Scp_put (Obj 6) (Several [''a.txt'', ''b.txt'']) ''/tmp'' False, Some exec_error)]\<rparr>) \<and>
   execute lib_all_fail session_ok ''echo hello'' 5 world_ok =
     (Inl exec_error, session_ok,
      world_ok\<lparr>trace := trace world_ok @
        [(Exec_command (Obj 0) ''echo hello'' 5, Some exec_error)]\<rparr>)"
proof -
  have scp: "scp_client session_ok = Some (Obj 6)" and ssh: "ssh_client session_ok = Some (Obj 0)"
    by (simp_all add: session_ok_def)
  have fails: "\<And>tr k. raises lib_all_fail tr k = Some exec_error"
    by (simp add: lib_all_fail_def)
  from operations_delegate_once [OF scp ssh, where c = lib_all_fail and w = world_ok
      and r = "''/etc/motd''" and l = "''.''" and recursive = False
      and ps = "Several [''a.txt'', ''b.txt'']" and r' = "''/tmp''" and recursive' = False
      and cmd = "''echo hello''" and t = 5]
  show ?thesis by (simp add: scp ssh fails)
qed



text \<open>
  Claim C10. \<^verbatim>\<open>get\<close>, \<^verbatim>\<open>put\<close> and \<^verbatim>\<open>execute\<close> assign no attribute: whatever the
  session, the arguments and the outcome of the library call, the instance after the
  call is the instance before it.
\<close>

theorem operations_leave_session_unchanged:
  "fst (snd (get c s r l recursive w)) = s \<and>
   fst (snd (put c s ps r recursive w)) = s \<and>
   fst (snd (execute c s cmd t w)) = s"
  by (simp add: get_def put_def execute_def split: prod.splits option.splits)

subsection \<open>Disposal\<close>









subsection \<open>Round trip\<close>

text \<open>
  Claim C9. Let the copy channel be \<open>faithful\<close>, and let the local path \<open>l\<close> hold a file,
  or a directory tree with \<^verbatim>\<open>recursive\<close> set. When \<^verbatim>\<open>put\<close> of \<open>l\<close> to the remote path
  \<open>r\<close> returns and \<^verbatim>\<open>get\<close> of \<open>r\<close> to the local path \<open>l'\<close> then returns, the two calls
  the session made on the channel leave at \<open>l'\<close> the very node that was at \<open>l\<close>: the
  paths and the flag reach the channel as the caller gave them.
\<close>

theorem put_then_get_round_trip:
  assumes "faithful eff"
    and "loc l = Some n" and "recursive \<or> \<not> is_dir n"
    and "put c s (Single l) r recursive w = (Inr (), s1, w1)"
    and "get c s1 r l' recursive w1 = (Inr (), s2, w2)"
  shows "fst (replay eff (since w w2) (loc, rem)) l' = Some n"
proof -
  from put_ok [OF assms(4)] obtain scp where scp: "scp_client s = Some scp" and s1: "s1 = s"
    and w1: "w1 = w\<lparr>trace := trace w @ [(Scp_put scp (Single l) r recursive, None)]\<rparr>"
    by blast
  from get_ok [OF assms(5)] scp s1
  have w2: "w2 = w1\<lparr>trace := trace w1 @ [(Scp_get scp r l' recursive, None)]\<rparr>"
    by auto
  have ev: "since w w2 =
      [(Scp_put scp (Single l) r recursive, None), (Scp_get scp r l' recursive, None)]"
    by (simp add: w1 w2 since_def)
  obtain loc1 rem1
    where st1: "eff (Scp_put scp (Single l) r recursive) (loc, rem) = (loc1, rem1)"
    by (cases "eff (Scp_put scp (Single l) r recursive) (loc, rem)")
  from faithful_put [where loc = loc and l = l and n = n and rem = rem and scp = scp and r = r,
      OF assms(1-3)] st1
  have rem1: "rem1 r = Some n"
    by simp
  from faithful_get [where rem = rem1 and r = r and n = n and loc = loc1 and scp = scp
      and l = l', OF assms(1) rem1 assms(3)]
  have "fst (eff (Scp_get scp r l' recursive) (loc1, rem1)) l' = Some n" .
  with st1 ev show ?thesis
    by (simp add: replay_two)
qed

theorem put_then_get_round_trip_witness:
  "faithful (store :: nat channel) \<and>
   local0 ''notes.txt'' = Some (File ''hello'') \<and> \<not> is_dir (File ''hello'') \<and>
   fst (put lib_ok session_ok (Single ''notes.txt'') ''/tmp/notes.txt'' False world_ok) = Inr () \<and>
   fst (get lib_ok session_ok ''/tmp/notes.txt'' ''copy.txt'' False
          (snd (snd (put lib_ok session_ok (Single ''notes.txt'') ''/tmp/notes.txt'' False
             world_ok)))) = Inr () \<and>
   fst (replay store
          (since world_ok
             (snd (snd (get lib_ok session_ok ''/tmp/notes.txt'' ''copy.txt'' False
                (snd (snd (put lib_ok session_ok (Single ''notes.txt'') ''/tmp/notes.txt''
                   False world_ok)))))))
          (local0, remote0)) ''copy.txt'' = Some (File ''hello'')"
proof -
  let ?w1 = "snd (snd (put lib_ok session_ok (Single ''notes.txt'') ''/tmp/notes.txt'' False
    world_ok))"
  let ?w2 = "snd (snd (get lib_ok session_ok ''/tmp/notes.txt'' ''copy.txt'' False ?w1))"
  have n: "local0 ''notes.txt'' = Some (File ''hello'')"
    by (simp add: local0_def)
  have flag: "False \<or> \<not> is_dir (File ''hello'')"
    by simp
  have up: "put lib_ok session_ok (Single ''notes.txt'') ''/tmp/notes.txt'' False world_ok =
      (Inr (), session_ok, ?w1)"
    by (simp add: put_def call_defs lib_ok_def session_ok_def)
  have down: "get lib_ok session_ok ''/tmp/notes.txt'' ''copy.txt'' False ?w1 =
      (Inr (), session_ok, ?w2)"
    by (simp add: get_def call_defs lib_ok_def session_ok_def)
  have up_result: "fst (put lib_ok session_ok (Single ''notes.txt'') ''/tmp/notes.txt'' False
      world_ok) = Inr ()"
    by (simp add: put_def call_defs lib_ok_def session_ok_def)
  have down_result: "fst (get lib_ok session_ok ''/tmp/notes.txt'' ''copy.txt'' False ?w1) =
      Inr ()"
    by (simp add: get_def call_defs lib_ok_def session_ok_def)
  from put_then_get_round_trip [where loc = local0 and l = "''notes.txt''"
      and n = "File ''hello''" and rem = remote0, OF faithful_store n flag up down]
  show ?thesis
    by (simp add: faithful_store n up_result down_result)
qed

end
